theory Spec2Isabelle
  imports Main
begin

section \<open>Python values and string operations used by the wrappers\<close>

text \<open>
  Strings are lists of characters read as code points below 256. Exceptions are values:
  a computation that can raise returns \<open>error + 'a\<close>, with \<open>Inl\<close> for the exception.
\<close>

datatype error =
    TypeError
  | ValueError
  | IndexError
  | RuntimeError string
  | NotImplementedError

text \<open>\<^verbatim>\<open>str(n)\<close> for an integer: decimal digits, with a leading minus sign below zero.\<close>

definition digit_char :: "nat \<Rightarrow> char" where
  "digit_char d = ''0123456789'' ! (d mod 10)"

function str_nat :: "nat \<Rightarrow> string" where
  "str_nat n = (if n < 10 then [digit_char n] else str_nat (n div 10) @ [digit_char (n mod 10)])"
  by pat_completeness auto
termination
  by (relation "measure (\<lambda>n. n)") auto

declare str_nat.simps [simp del]

definition str_int :: "int \<Rightarrow> string" where
  "str_int i = (if i < 0 then CHR ''-'' # str_nat (nat (- i)) else str_nat (nat i))"

text \<open>\<^verbatim>\<open>sep.join(parts)\<close>.\<close>

fun str_join :: "string \<Rightarrow> string list \<Rightarrow> string" where
  "str_join sep [] = []"
| "str_join sep [x] = x"
| "str_join sep (x # y # ys) = x @ sep @ str_join sep (y # ys)"

text \<open>\<^verbatim>\<open>'{}'.format(v)\<close> for a value that may be \<^verbatim>\<open>None\<close>.\<close>

definition format_opt :: "string option \<Rightarrow> string" where
  "format_opt v = (case v of None \<Rightarrow> ''None'' | Some s \<Rightarrow> s)"

text \<open>
  \<^verbatim>\<open>s.strip()\<close> removes white space at both ends: the characters Python's \<^verbatim>\<open>str.isspace\<close>
  accepts below code point 256. \<^verbatim>\<open>s.strip(':')\<close> removes colons at both ends.
\<close>

definition is_space :: "char \<Rightarrow> bool" where
  "is_space c \<longleftrightarrow> c \<in> set [CHR 0x09, CHR 0x0A, CHR 0x0B, CHR 0x0C, CHR 0x0D,
                            CHR 0x1C, CHR 0x1D, CHR 0x1E, CHR 0x1F, CHR 0x20, CHR 0x85, CHR 0xA0]"

definition strip_with :: "(char \<Rightarrow> bool) \<Rightarrow> string \<Rightarrow> string" where
  "strip_with P s = rev (dropWhile P (rev (dropWhile P s)))"

definition strip :: "string \<Rightarrow> string" where
  "strip s = strip_with is_space s"

definition strip_colon :: "string \<Rightarrow> string" where
  "strip_colon s = strip_with (\<lambda>c. c = CHR '':'') s"

text \<open>\<^verbatim>\<open>s.split('::', 1)[0]\<close>: the text before the first \<^verbatim>\<open>::\<close>, or all of \<open>s\<close> without one.\<close>

fun before_double_colon :: "string \<Rightarrow> string" where
  "before_double_colon (a # b # r) =
     (if a = CHR '':'' \<and> b = CHR '':'' then [] else a # before_double_colon (b # r))"
| "before_double_colon s = s"

section \<open>The operating system as the wrappers see it\<close>

text \<open>
  The disk holds regular files (path to content) and directories, each under its
  canonical path: the one absolute, normalised name of the file. A path as the program
  spells it (relative to the working directory, or with redundant parts) is resolved to
  that name before the disk is consulted, so two spellings of one file are one file. The
  empty path names nothing.
\<close>

record disk =
  files_on :: "string \<rightharpoonup> string"
  dirs_on :: "string set"

text \<open>One finished child process: command line, working directory, and what it gave back.\<close>

type_synonym proc_result = "int \<times> string \<times> string"
type_synonym proc_run = "string \<times> string \<times> proc_result"

definition stderr_of :: "proc_run \<Rightarrow> string" where
  "stderr_of r = snd (snd (snd (snd r)))"

definition return_code_of :: "proc_run \<Rightarrow> int" where
  "return_code_of r = fst (snd (snd r))"

record world =
  disk :: disk
  procs :: "proc_run list"
  console :: "string list"

text \<open>
  The library and system calls whose results depend on the platform are parameters:
  \<^verbatim>\<open>os.getcwd\<close>, \<^verbatim>\<open>os.path.join\<close> of two paths (a join of three is two joins, left to
  right), the variable substitution of \<^verbatim>\<open>os.path.expandvars\<close>,
  \<^verbatim>\<open>os.path.relpath\<close> on a non-empty path (it can raise \<^verbatim>\<open>ValueError\<close>),
  \<^verbatim>\<open>os.path.realpath\<close>, \<^verbatim>\<open>glob.glob\<close> and the child process run by \<^verbatim>\<open>Popen\<close>
  (command, working directory), which may change the disk. So is the way the file system
  resolves a path: \<open>canonical\<close> gives the canonical path a spelling stands for, and
  \<open>ancestors\<close> the directories above a path.
\<close>

record os_iface =
  getcwd :: string
  path_join :: "string \<Rightarrow> string \<Rightarrow> string"
  substitute_vars :: "string \<Rightarrow> string"
  relpath :: "string \<Rightarrow> string \<Rightarrow> error + string"
  realpath :: "disk \<Rightarrow> string \<Rightarrow> string"
  glob :: "disk \<Rightarrow> string \<Rightarrow> bool \<Rightarrow> string list"
  popen :: "disk \<Rightarrow> string \<Rightarrow> string \<Rightarrow> proc_result \<times> disk"
  canonical :: "string \<Rightarrow> string"
  ancestors :: "string \<Rightarrow> string list"

text \<open>\<^verbatim>\<open>_execute_shell_cmd\<close>, the same in both classes.\<close>

definition execute_shell_cmd ::
  "os_iface \<Rightarrow> string \<Rightarrow> string option \<Rightarrow> world \<Rightarrow> proc_result \<times> world" where
  "execute_shell_cmd os command working_dir w =
     (let actual_working_dir = (case working_dir of None \<Rightarrow> getcwd os | Some d \<Rightarrow> d);
          (result, d') = popen os (disk w) command actual_working_dir
      in (result, w\<lparr>disk := d', procs := procs w @ [(command, actual_working_dir, result)]\<rparr>))"

definition print :: "string \<Rightarrow> world \<Rightarrow> world" where
  "print s w = w\<lparr>console := console w @ [s]\<rparr>"

section \<open>clangformat.py\<close>

record DirSpec =
  ds_path :: string
  ds_recursive :: bool
  ds_extensions :: "string list"

record FormatterConfig =
  cf_inplace :: bool
  cf_style :: string
  cf_files :: "string list"
  cf_directories :: "DirSpec list"

definition inplace :: "FormatterConfig \<Rightarrow> string" where
  "inplace raw_config = (if cf_inplace raw_config then ''-i'' else '''')"

definition style :: "FormatterConfig \<Rightarrow> string" where
  "style raw_config = ''-style='' @ cf_style raw_config"

definition build_file_command ::
  "os_iface \<Rightarrow> disk \<Rightarrow> FormatterConfig \<Rightarrow> string \<Rightarrow> string \<Rightarrow> string" where
  "build_file_command os d self file working_dir =
     (let path = realpath os d (path_join os working_dir file)
      in str_join '' '' [inplace self, style self, path])"

text \<open>The loop over the extensions of \<^verbatim>\<open>build_directory_command\<close>.\<close>

fun glob_extensions :: "os_iface \<Rightarrow> disk \<Rightarrow> string \<Rightarrow> bool \<Rightarrow> string list \<Rightarrow> string list" where
  "glob_extensions os d path recurse [] = []"
| "glob_extensions os d path recurse (ext # exts) =
     (let search_start = (if recurse then path_join os (path_join os path ''**'') ext
                          else path_join os path ext)
      in glob os d search_start recurse @ glob_extensions os d path recurse exts)"

definition build_directory_command ::
  "os_iface \<Rightarrow> disk \<Rightarrow> FormatterConfig \<Rightarrow> DirSpec \<Rightarrow> string \<Rightarrow> string" where
  "build_directory_command os d self dir_obj working_dir =
     (let path = realpath os d (path_join os working_dir (ds_path dir_obj));
          files = glob_extensions os d path (ds_recursive dir_obj) (ds_extensions dir_obj)
      in str_join '' '' [inplace self, style self, str_join '' '' files])"

record ClangFormatter =
  config :: FormatterConfig
  working_dir :: string
  project_file_dir :: string
  clang_format_exe :: "string option"

definition template :: "string option \<Rightarrow> string \<Rightarrow> string" where
  "template exe args = format_opt exe @ '' -verbose '' @ args"

text \<open>
  The two loops of \<^verbatim>\<open>ClangFormatter.execute\<close>. Each gives \<open>Some return_code\<close> when it
  returned from inside the loop and \<open>None\<close> when it ran to its end.
\<close>

fun execute_files ::
  "os_iface \<Rightarrow> ClangFormatter \<Rightarrow> string list \<Rightarrow> world \<Rightarrow> int option \<times> world" where
  "execute_files os self [] w = (None, w)"
| "execute_files os self (file # rest) w =
     (let command = template (clang_format_exe self)
                      (build_file_command os (disk w) (config self) file (project_file_dir self));
          ((return_code, stdout, stderr), w1) =
             execute_shell_cmd os command (Some (working_dir self)) w
      in if stderr \<noteq> [] then (Some return_code, print stderr w1)
         else execute_files os self rest w1)"

fun execute_directories ::
  "os_iface \<Rightarrow> ClangFormatter \<Rightarrow> DirSpec list \<Rightarrow> world \<Rightarrow> int option \<times> world" where
  "execute_directories os self [] w = (None, w)"
| "execute_directories os self (directory # rest) w =
     (let files = build_directory_command os (disk w) (config self) directory
                    (project_file_dir self);
          command = template (clang_format_exe self) files;
          ((return_code, stdout, stderr), w1) =
             execute_shell_cmd os command (Some (working_dir self)) w
      in if stderr \<noteq> [] then (Some return_code, print stderr w1)
         else execute_directories os self rest w1)"

definition ClangFormatter_execute :: "os_iface \<Rightarrow> ClangFormatter \<Rightarrow> world \<Rightarrow> int \<times> world" where
  "ClangFormatter_execute os self w =
     (case execute_files os self (cf_files (config self)) w of
        (Some return_code, w1) \<Rightarrow> (return_code, w1)
      | (None, w1) \<Rightarrow>
          (case execute_directories os self (cf_directories (config self)) w1 of
             (Some return_code, w2) \<Rightarrow> (return_code, w2)
           | (None, w2) \<Rightarrow> (0, w2)))"

section \<open>cppcheck.py\<close>

text \<open>
  A value that JSON gives as a number or as text, rendered by \<^verbatim>\<open>'{}'.format\<close>.
\<close>

datatype json_scalar = JInt int | JStr string

fun format_scalar :: "json_scalar \<Rightarrow> string" where
  "format_scalar (JInt i) = str_int i"
| "format_scalar (JStr s) = s"

record SuppressionEntry =
  se_error_id :: string
  se_filename :: string
  se_line :: json_scalar
  se_comment :: string

record AnalyzerConfig =
  cfg_threads :: int
  cfg_output_format :: string
  cfg_output_template :: "string option"
  cfg_message_level :: "string list"
  cfg_defines :: "string list"
  cfg_un_defines :: "string list"
  cfg_standard :: string
  cfg_platform :: string
  cfg_on_error_exit_code :: int
  cfg_includes :: "string list"
  cfg_excludes :: "string list"
  cfg_directories :: "string list"
  cfg_files :: "string list"
  cfg_suppression :: "SuppressionEntry list option"
  cfg_add_ons :: bool
  cfg_options :: "string list"
  cfg_output_dir :: string

text \<open>The object's attributes \<^verbatim>\<open>_name\<close>, \<^verbatim>\<open>_raw_config\<close>, \<^verbatim>\<open>_results_dir\<close>, \<^verbatim>\<open>_cpp_working_dir\<close>.\<close>

record CppCheckConfig =
  p_name :: string
  p_raw_config :: AnalyzerConfig
  p_results_dir :: string
  p_cpp_working_dir :: string

definition CppCheckConfig_init :: "string \<Rightarrow> AnalyzerConfig \<Rightarrow> CppCheckConfig" where
  "CppCheckConfig_init nm cfg =
     \<lparr>p_name = nm, p_raw_config = cfg, p_results_dir = [], p_cpp_working_dir = []\<rparr>"

subsection \<open>The properties of a configuration\<close>

definition results_dir :: "CppCheckConfig \<Rightarrow> string" where
  "results_dir self = p_results_dir self"

definition name :: "CppCheckConfig \<Rightarrow> string" where
  "name self = p_name self"

definition CppCheckConfig_files :: "CppCheckConfig \<Rightarrow> string" where
  "CppCheckConfig_files self = str_join '' '' (cfg_files (p_raw_config self))"

definition CppCheckConfig_directories :: "CppCheckConfig \<Rightarrow> string" where
  "CppCheckConfig_directories self = str_join '' '' (cfg_directories (p_raw_config self))"

definition CppCheckConfig_includes :: "CppCheckConfig \<Rightarrow> string" where
  "CppCheckConfig_includes self = str_join '' '' (map (\<lambda>include_file. ''-I'' @ include_file)
                                       (cfg_includes (p_raw_config self)))"

definition excludes :: "CppCheckConfig \<Rightarrow> string" where
  "excludes self = str_join '' '' (map (\<lambda>exclude_file. ''-i'' @ exclude_file)
                                       (cfg_excludes (p_raw_config self)))"

definition CppCheckConfig_defines :: "CppCheckConfig \<Rightarrow> string" where
  "CppCheckConfig_defines self = strip (str_join '' '' (map (\<lambda>define. ''-D'' @ define)
                                             (cfg_defines (p_raw_config self))))"

definition un_defines :: "CppCheckConfig \<Rightarrow> string" where
  "un_defines self = str_join '' '' (map (\<lambda>un_define. ''-i'' @ un_define)
                                         (cfg_un_defines (p_raw_config self)))"

definition message_level :: "CppCheckConfig \<Rightarrow> string" where
  "message_level self =
     (let levels = str_join '','' (cfg_message_level (p_raw_config self))
      in ''--enable='' @ strip levels)"

definition add_ons :: "CppCheckConfig \<Rightarrow> bool" where
  "add_ons self = cfg_add_ons (p_raw_config self)"

definition threads :: "CppCheckConfig \<Rightarrow> string" where
  "threads self = ''-j '' @ str_int (cfg_threads (p_raw_config self))"

text \<open>\<^verbatim>\<open>'--template=\"{}\"'.format(v)\<close>; \<open>CHR 0x22\<close> is the double quote.\<close>

definition template_flag :: "string \<Rightarrow> string" where
  "template_flag v = ''--template='' @ [CHR 0x22] @ v @ [CHR 0x22]"

definition output_format :: "CppCheckConfig \<Rightarrow> string" where
  "output_format self =
     (case cfg_output_template (p_raw_config self) of
        None \<Rightarrow> template_flag (cfg_output_format (p_raw_config self))
      | Some t \<Rightarrow>
          (if t \<noteq> [] then template_flag t
           else template_flag (cfg_output_format (p_raw_config self))))"

definition output_dir :: "CppCheckConfig \<Rightarrow> string" where
  "output_dir self = cfg_output_dir (p_raw_config self)"

definition options :: "CppCheckConfig \<Rightarrow> string" where
  "options self = str_join '' '' (cfg_options (p_raw_config self))"

definition use_xml :: "CppCheckConfig \<Rightarrow> error + bool" where
  "use_xml self = Inl NotImplementedError"

definition standard :: "CppCheckConfig \<Rightarrow> string" where
  "standard self = ''--std='' @ cfg_standard (p_raw_config self)"

definition platform :: "CppCheckConfig \<Rightarrow> string" where
  "platform self = ''--platform='' @ cfg_platform (p_raw_config self)"

definition error_exit_code :: "CppCheckConfig \<Rightarrow> string" where
  "error_exit_code self =
     ''--error-exitcode='' @ str_int (cfg_on_error_exit_code (p_raw_config self))"

subsection \<open>Library calls with a fixed meaning\<close>

text \<open>
  \<^verbatim>\<open>os.path.expandvars\<close> returns a path without \<^verbatim>\<open>$\<close> and \<^verbatim>\<open>%\<close> as it is and substitutes
  variables otherwise. \<^verbatim>\<open>os.path.isfile\<close> and \<^verbatim>\<open>os.path.isdir\<close> resolve the path and look
  it up; the empty path is neither. \<^verbatim>\<open>os.makedirs\<close> makes the directory and every
  directory above it that is missing.
\<close>

definition expandvars :: "os_iface \<Rightarrow> string \<Rightarrow> string" where
  "expandvars os p =
     (if CHR ''$'' \<notin> set p \<and> CHR ''%'' \<notin> set p then p else substitute_vars os p)"

definition isfile :: "os_iface \<Rightarrow> disk \<Rightarrow> string \<Rightarrow> bool" where
  "isfile os d p \<longleftrightarrow> p \<noteq> [] \<and> files_on d (canonical os p) \<noteq> None"

definition isdir :: "os_iface \<Rightarrow> disk \<Rightarrow> string \<Rightarrow> bool" where
  "isdir os d p \<longleftrightarrow> p \<noteq> [] \<and> canonical os p \<in> dirs_on d"

definition makedirs :: "os_iface \<Rightarrow> string \<Rightarrow> disk \<Rightarrow> disk" where
  "makedirs os p d =
     d\<lparr>dirs_on := canonical os ` set (ancestors os p @ [p]) \<union> dirs_on d\<rparr>"

text \<open>
  \<^verbatim>\<open>open(path, 'w')\<close> followed by writing \<open>text\<close> and closing: the file the path
  stands for holds \<open>text\<close> and nothing else.
\<close>

definition write_file :: "os_iface \<Rightarrow> string \<Rightarrow> string \<Rightarrow> disk \<Rightarrow> disk" where
  "write_file os p text d = d\<lparr>files_on := (files_on d)(canonical os p \<mapsto> text)\<rparr>"

text \<open>
  \<^verbatim>\<open>os.path.commonprefix\<close>: the longest common leading text of the given paths; a
  \<^verbatim>\<open>None\<close> among them raises \<^verbatim>\<open>TypeError\<close>. \<^verbatim>\<open>os.path.relpath\<close> raises on \<^verbatim>\<open>None\<close>
  and on the empty path.
\<close>

fun common_prefix2 :: "string \<Rightarrow> string \<Rightarrow> string" where
  "common_prefix2 (a # as) (b # bs) = (if a = b then a # common_prefix2 as bs else [])"
| "common_prefix2 _ _ = []"

fun commonprefix :: "string option list \<Rightarrow> error + string" where
  "commonprefix [] = Inr []"
| "commonprefix (p # ps) =
     (if None \<in> set (p # ps) then Inl TypeError
      else Inr (foldl common_prefix2 (the p) (map the ps)))"

definition os_path_relpath :: "os_iface \<Rightarrow> string option \<Rightarrow> string \<Rightarrow> error + string" where
  "os_path_relpath os p start =
     (case p of
        None \<Rightarrow> Inl ValueError
      | Some q \<Rightarrow> (if q = [] then Inl ValueError else relpath os q start))"

subsection \<open>The suppression list\<close>

text \<open>The suppression line of one entry, given its expanded file name.\<close>

definition output_string :: "SuppressionEntry \<Rightarrow> string \<Rightarrow> string" where
  "output_string item filename =
     strip_colon (before_double_colon
       (se_error_id item @ '':'' @ filename @ '':'' @ format_scalar (se_line item)))"

text \<open>
  The loop over the entries. \<open>written\<close> is what has been written to the open file so
  far; the loop stops at the first entry whose file does not exist.
\<close>

fun write_items ::
  "os_iface \<Rightarrow> disk \<Rightarrow> SuppressionEntry list \<Rightarrow> string \<Rightarrow> error option \<times> string" where
  "write_items os d [] written = (None, written)"
| "write_items os d (item # rest) written =
     (let filename = expandvars os (se_filename item)
      in if \<not> isfile os d filename then (Some (RuntimeError (''Invalid path: '' @ filename)), written)
         else write_items os d rest
                (written @ ''// '' @ se_comment item @ [CHR 0x0A]
                         @ output_string item filename @ [CHR 0x0A, CHR 0x0A]))"

text \<open>
  \<^verbatim>\<open>generate_suppression_list\<close>. Opening the file for writing creates or empties it
  before the loop runs; leaving the \<^verbatim>\<open>with\<close> block, also by an exception, closes it
  with all that was written.
\<close>

definition act_out_file :: "os_iface \<Rightarrow> CppCheckConfig \<Rightarrow> string" where
  "act_out_file os self = path_join os (p_results_dir self) (name self @ ''_suppression_list.txt'')"

definition generate_suppression_list ::
  "os_iface \<Rightarrow> CppCheckConfig \<Rightarrow> world \<Rightarrow> (error + string) \<times> world" where
  "generate_suppression_list os self w =
     (let config_suppression = cfg_suppression (p_raw_config self);
          (raised, out_file, w1) =
            (case config_suppression of
               None \<Rightarrow> (None, None, w)
             | Some items \<Rightarrow>
                 (if items = [] then (None, None, w)
                  else
                    (let f = act_out_file os self;
                         opened = write_file os f [] (disk w);
                         (exc, written) = write_items os opened items []
                     in (exc, Some f, w\<lparr>disk := write_file os f written opened\<rparr>))))
      in case raised of
           Some e \<Rightarrow> (Inl e, w1)
         | None \<Rightarrow>
             (case commonprefix [Some (getcwd os), out_file] of
                Inl e \<Rightarrow> (Inl e, w1)
              | Inr start \<Rightarrow> (os_path_relpath os out_file start, w1)))"

text \<open>
  Three notions to state what the loop does: the text its body writes for one entry, the
  check of its body on the disk as it is once the output file is open, and whether a
  string contains \<^verbatim>\<open>::\<close>.
\<close>

definition entry_text :: "os_iface \<Rightarrow> SuppressionEntry \<Rightarrow> string" where
  "entry_text os item =
     ''// '' @ se_comment item @ [CHR 0x0A]
       @ output_string item (expandvars os (se_filename item)) @ [CHR 0x0A, CHR 0x0A]"

definition passes_check :: "os_iface \<Rightarrow> CppCheckConfig \<Rightarrow> world \<Rightarrow> SuppressionEntry \<Rightarrow> bool" where
  "passes_check os self w item \<longleftrightarrow>
     isfile os (write_file os (act_out_file os self) [] (disk w))
       (expandvars os (se_filename item))"

fun has_double_colon :: "string \<Rightarrow> bool" where
  "has_double_colon (a # b # r) =
     ((a = CHR '':'' \<and> b = CHR '':'') \<or> has_double_colon (b # r))"
| "has_double_colon s = False"

subsection \<open>The command line\<close>

definition base_command :: "CppCheckConfig \<Rightarrow> string" where
  "base_command self =
     str_join '' '' [threads self, output_format self, message_level self, CppCheckConfig_defines self,
                     un_defines self, standard self, platform self, error_exit_code self,
                     CppCheckConfig_includes self, excludes self, CppCheckConfig_directories self,
                     CppCheckConfig_files self]"

definition build_command ::
  "os_iface \<Rightarrow> CppCheckConfig \<Rightarrow> world \<Rightarrow> (error + string) \<times> world" where
  "build_command os self w =
     (let command = base_command self
      in case generate_suppression_list os self w of
           (Inl e, w1) \<Rightarrow> (Inl e, w1)
         | (Inr suppression_list, w1) \<Rightarrow>
             (let command1 = (if suppression_list \<noteq> []
                              then str_join '' '' [''--suppressions-list='' @ suppression_list, command]
                              else command);
                  command2 = (if add_ons self then str_join '' '' [''--dump'', command1]
                              else command1);
                  command3 = (if options self \<noteq> [] then str_join '' '' [options self, command2]
                              else command2)
              in (Inr command3, w1)))"

text \<open>The setter of \<^verbatim>\<open>cpp_working_dir\<close>.\<close>

definition set_cpp_working_dir ::
  "os_iface \<Rightarrow> CppCheckConfig \<Rightarrow> string \<Rightarrow> world \<Rightarrow> CppCheckConfig \<times> world" where
  "set_cpp_working_dir os self val w =
     (let rd = path_join os (path_join os val (output_dir self)) (name self);
          self1 = self\<lparr>p_cpp_working_dir := val, p_results_dir := rd\<rparr>
      in if \<not> isdir os (disk w) rd then (self1, w\<lparr>disk := makedirs os rd (disk w)\<rparr>)
         else (self1, w))"

subsection \<open>The runner\<close>

text \<open>
  \<^verbatim>\<open>self._version\<close> holds the text \<^verbatim>\<open>'unknown'\<close> or the number read from the tool's
  output; the number is kept as the text it is read from.
\<close>

datatype version_value = VersionText string | VersionFloat string

record CppCheck =
  p_cppcheck_exe :: string
  p_version :: version_value
  configurations :: "string \<rightharpoonup> CppCheckConfig"

definition CppCheck_init :: "string \<Rightarrow> CppCheck" where
  "CppCheck_init exe_path =
     \<lparr>p_cppcheck_exe = exe_path, p_version = VersionText ''unknown'',
      configurations = Map.empty\<rparr>"

definition cppcheck ::
  "os_iface \<Rightarrow> CppCheck \<Rightarrow> string \<Rightarrow> string \<Rightarrow> world \<Rightarrow> proc_result \<times> world" where
  "cppcheck os self cmd wd w =
     (let full_command = p_cppcheck_exe self @ '' '' @ cmd;
          w1 = print full_command (print ''Running CPPCheck, please be patient...'' w);
          ((rc, out, err), w2) = execute_shell_cmd os full_command (Some wd) w1;
          w3 = print ''CPPCheck Complete'' (print (''Return Code: '' @ str_int rc) w2)
      in ((rc, out, err), w3))"

text \<open>
  A tuple is a list of values; \<^verbatim>\<open>a, b = t\<close> raises \<^verbatim>\<open>ValueError\<close> unless \<open>t\<close> has
  exactly two of them.
\<close>

datatype pyval = PInt int | PStr string

definition unpack2 :: "pyval list \<Rightarrow> error + (pyval \<times> pyval)" where
  "unpack2 t = (case t of [a, b] \<Rightarrow> Inr (a, b) | _ \<Rightarrow> Inl ValueError)"

text \<open>\<^verbatim>\<open>s.split()\<close>: the maximal runs of characters that are not white space.\<close>

fun split_ws :: "string \<Rightarrow> string \<Rightarrow> string list" where
  "split_ws cur [] = (if cur = [] then [] else [cur])"
| "split_ws cur (c # cs) =
     (if is_space c then (if cur = [] then split_ws [] cs else cur # split_ws [] cs)
      else split_ws (cur @ [c]) cs)"

text \<open>
  The branch of \<^verbatim>\<open>version\<close> taken on a truthy \<^verbatim>\<open>cmd_output\<close>:
  \<^verbatim>\<open>float(cmd_output[0].split()[1])\<close>. Indexing a number raises \<^verbatim>\<open>TypeError\<close>, and an
  index out of range raises \<^verbatim>\<open>IndexError\<close>; the text given to \<^verbatim>\<open>float\<close> is kept as it is.
\<close>

definition parse_version :: "pyval \<Rightarrow> error + version_value" where
  "parse_version cmd_output =
     (case cmd_output of
        PInt i \<Rightarrow> Inl TypeError
      | PStr s \<Rightarrow>
          (case s of
             [] \<Rightarrow> Inl IndexError
           | c # _ \<Rightarrow>
               (let formatted = split_ws [] [c]
                in if 1 < length formatted then Inr (VersionFloat (formatted ! 1))
                   else Inl IndexError)))"

definition truthy :: "pyval \<Rightarrow> bool" where
  "truthy v = (case v of PInt i \<Rightarrow> i \<noteq> 0 | PStr s \<Rightarrow> s \<noteq> [])"

definition version ::
  "os_iface \<Rightarrow> CppCheck \<Rightarrow> world \<Rightarrow> (error + version_value) \<times> CppCheck \<times> world" where
  "version os self w =
     (let ((rc, out, err), w1) = cppcheck os self ''--version'' (getcwd os) w
      in case unpack2 [PInt rc, PStr out, PStr err] of
           Inl e \<Rightarrow> (Inl e, self, w1)
         | Inr (_, cmd_output) \<Rightarrow>
             (if truthy cmd_output
              then (case parse_version cmd_output of
                      Inl e \<Rightarrow> (Inl e, self, w1)
                    | Inr v \<Rightarrow> (Inr v, self\<lparr>p_version := v\<rparr>, w1))
              else (Inr (VersionText ''unknown''),
                    self\<lparr>p_version := VersionText ''unknown''\<rparr>, w1)))"

definition CppCheck_execute ::
  "os_iface \<Rightarrow> CppCheck \<Rightarrow> string \<Rightarrow> string \<Rightarrow> world \<Rightarrow> (error + int) \<times> CppCheck \<times> world" where
  "CppCheck_execute os self cfg_name wd w =
     (case configurations self cfg_name of
        None \<Rightarrow> (Inr 0, self, w)
      | Some cfg0 \<Rightarrow>
          (let (cfg, w1) = set_cpp_working_dir os cfg0 wd w;
               self1 = self\<lparr>configurations := (configurations self)(cfg_name \<mapsto> cfg)\<rparr>
           in case build_command os cfg w1 of
                (Inl e, w2) \<Rightarrow> (Inl e, self1, w2)
              | (Inr command, w2) \<Rightarrow>
                  (let ((return_code, out, err), w3) = cppcheck os self1 command wd w2;
                       log_file = path_join os (results_dir cfg) (name cfg @ ''_log.txt'');
                       w4 = w3\<lparr>disk := write_file os log_file out (disk w3)\<rparr>;
                       err_file = path_join os (results_dir cfg) (name cfg @ ''_err.txt'');
                       w5 = w4\<lparr>disk := write_file os err_file err (disk w4)\<rparr>
                   in (Inr return_code, self1, w5))))"

definition run_add_on :: "CppCheck \<Rightarrow> string \<Rightarrow> string \<Rightarrow> error + unit" where
  "run_add_on self dump_file which = Inl NotImplementedError"

section \<open>A small environment to run the definitions in\<close>

text \<open>
  A POSIX-like system with working directory \<^verbatim>\<open>/work\<close>: paths are joined with a slash,
  no environment variable is set, a relative path stands for the file of that name under
  the working directory, \<^verbatim>\<open>realpath\<close> leaves a path as it is, and the child
  process reports an error on standard error for a command line ending in \<^verbatim>\<open>bad.cpp\<close>
  and prints \<^verbatim>\<open>OK\<close> otherwise, leaving the disk alone.
\<close>

definition posix_join :: "string \<Rightarrow> string \<Rightarrow> string" where
  "posix_join a b =
     (if b \<noteq> [] \<and> hd b = CHR ''/'' then b
      else if a = [] \<or> last a = CHR ''/'' then a @ b
      else a @ ''/'' @ b)"

definition sample_relpath :: "string \<Rightarrow> string \<Rightarrow> error + string" where
  "sample_relpath p start =
     (if take (length start) p = start
      then Inr (dropWhile (\<lambda>c. c = CHR ''/'') (drop (length start) p))
      else Inr p)"

definition sample_glob :: "disk \<Rightarrow> string \<Rightarrow> bool \<Rightarrow> string list" where
  "sample_glob d pattern recurse =
     (if pattern = ''/proj/lib/*.hpp'' then [''/proj/lib/a.hpp'', ''/proj/lib/b.hpp'']
      else if pattern = ''/proj/gen/**/*.cpp'' then [''/proj/gen/x/bad.cpp'']
      else [])"

definition sample_popen :: "disk \<Rightarrow> string \<Rightarrow> string \<Rightarrow> proc_result \<times> disk" where
  "sample_popen d command cwd =
     (if drop (length command - 7) command = ''bad.cpp''
      then ((1, [], ''No such file''), d)
      else ((0, ''OK'', []), d))"

fun posix_ancestors :: "string \<Rightarrow> string \<Rightarrow> string list" where
  "posix_ancestors seen [] = []"
| "posix_ancestors seen (c # cs) =
     (if c = CHR ''/'' \<and> seen \<noteq> [] then seen # posix_ancestors (seen @ [c]) cs
      else posix_ancestors (seen @ [c]) cs)"

definition sample_os :: os_iface where
  "sample_os =
     \<lparr>getcwd = ''/work'', path_join = posix_join, substitute_vars = (\<lambda>p. p),
      relpath = sample_relpath, realpath = (\<lambda>d p. p), glob = sample_glob,
      popen = sample_popen, canonical = posix_join ''/work'',
      ancestors = posix_ancestors []\<rparr>"

definition sample_disk :: disk where
  "sample_disk =
     \<lparr>files_on = [''/work/src/main.cpp'' \<mapsto> ''int main() {}'', ''/work/lib/util.cpp'' \<mapsto> ''int f();''],
      dirs_on = {''/work'', ''/work/src''}\<rparr>"

definition sample_world :: world where
  "sample_world = \<lparr>disk = sample_disk, procs = [], console = []\<rparr>"

definition sample_formatter_config :: FormatterConfig where
  "sample_formatter_config =
     \<lparr>cf_inplace = True, cf_style = ''file'', cf_files = [''a.cpp'', ''b.cpp''],
      cf_directories = [\<lparr>ds_path = ''lib'', ds_recursive = False, ds_extensions = [''*.hpp'']\<rparr>,
                        \<lparr>ds_path = ''gen'', ds_recursive = True, ds_extensions = [''*.cpp'']\<rparr>,
                        \<lparr>ds_path = ''doc'', ds_recursive = False, ds_extensions = [''*.h'']\<rparr>]\<rparr>"

definition sample_formatter :: ClangFormatter where
  "sample_formatter =
     \<lparr>config = sample_formatter_config, working_dir = ''/work'', project_file_dir = ''/proj'',
      clang_format_exe = Some ''clang-format''\<rparr>"

definition sample_entry :: SuppressionEntry where
  "sample_entry =
     \<lparr>se_error_id = ''nullPointer'', se_filename = ''/work/src/main.cpp'', se_line = JInt 42,
      se_comment = ''x''\<rparr>"

definition sample_analyzer_config :: AnalyzerConfig where
  "sample_analyzer_config =
     \<lparr>cfg_threads = 4, cfg_output_format = ''gcc'', cfg_output_template = None,
      cfg_message_level = [''warning'', ''style''], cfg_defines = [''DEBUG''],
      cfg_un_defines = [''NDEBUG''], cfg_standard = ''c++11'', cfg_platform = ''unix32'',
      cfg_on_error_exit_code = 1, cfg_includes = [''inc''], cfg_excludes = [''third_party''],
      cfg_directories = [''src''], cfg_files = [''main.cpp''],
      cfg_suppression = Some [sample_entry], cfg_add_ons = True, cfg_options = [''--force''],
      cfg_output_dir = ''out''\<rparr>"

definition sample_config :: CppCheckConfig where
  "sample_config =
     \<lparr>p_name = ''thor'', p_raw_config = sample_analyzer_config,
      p_results_dir = ''/work/out/thor'', p_cpp_working_dir = ''/work''\<rparr>"

text \<open>The same system with a tool that prints nothing at all.\<close>

definition silent_os :: os_iface where
  "silent_os = sample_os\<lparr>popen := (\<lambda>d command cwd. ((0, [], []), d))\<rparr>"

text \<open>The sample configuration with an empty suppression list, and with a template.\<close>

definition no_suppression_config :: CppCheckConfig where
  "no_suppression_config =
     sample_config\<lparr>p_raw_config := sample_analyzer_config\<lparr>cfg_suppression := Some []\<rparr>\<rparr>"

definition template_config :: "string \<Rightarrow> CppCheckConfig" where
  "template_config t =
     sample_config\<lparr>p_raw_config := sample_analyzer_config\<lparr>cfg_output_template := Some t\<rparr>\<rparr>"

text \<open>The sample configuration with a given suppression list, or with given options.\<close>

definition entry_for :: "string \<Rightarrow> SuppressionEntry" where
  "entry_for filename = sample_entry\<lparr>se_filename := filename\<rparr>"

definition config_with_entries :: "SuppressionEntry list \<Rightarrow> CppCheckConfig" where
  "config_with_entries entries =
     sample_config\<lparr>p_raw_config := sample_analyzer_config\<lparr>cfg_suppression := Some entries\<rparr>\<rparr>"

definition config_with_options :: "string list \<Rightarrow> CppCheckConfig" where
  "config_with_options opts =
     sample_config\<lparr>p_raw_config := sample_analyzer_config\<lparr>cfg_options := opts\<rparr>\<rparr>"

text \<open>The world after the sample formatter has run: the fourth command failed.\<close>

definition sample_formatter_result :: world where
  "sample_formatter_result =
     \<lparr>disk = sample_disk,
      procs = [(''clang-format -verbose -i -style=file /proj/a.cpp'', ''/work'', 0, ''OK'', []),
               (''clang-format -verbose -i -style=file /proj/b.cpp'', ''/work'', 0, ''OK'', []),
               (''clang-format -verbose -i -style=file /proj/lib/a.hpp /proj/lib/b.hpp'',
                ''/work'', 0, ''OK'', []),
               (''clang-format -verbose -i -style=file /proj/gen/x/bad.cpp'', ''/work'', 1, [],
                ''No such file'')],
      console = [''No such file'']\<rparr>"

section \<open>Notions used to state the properties\<close>

text \<open>The lines of a text, each ended by a line feed (\<^verbatim>\<open>str.splitlines\<close>).\<close>

fun lines_from :: "string \<Rightarrow> string \<Rightarrow> string list" where
  "lines_from cur [] = (if cur = [] then [] else [cur])"
| "lines_from cur (c # cs) =
     (if c = CHR 0x0A then cur # lines_from [] cs else lines_from (cur @ [c]) cs)"

definition splitlines :: "string \<Rightarrow> string list" where
  "splitlines s = lines_from [] s"

text \<open>How often \<^verbatim>\<open>-j\<close> occurs in a string.\<close>

fun count_dash_j :: "string \<Rightarrow> nat" where
  "count_dash_j (a # b # r) =
     (if a = CHR ''-'' \<and> b = CHR ''j'' then 1 else 0) + count_dash_j (b # r)"
| "count_dash_j s = 0"

definition free_of_dash_j :: "string list \<Rightarrow> bool" where
  "free_of_dash_j texts \<longleftrightarrow> (\<forall>s\<in>set texts. count_dash_j s = 0)"

text \<open>Every string of a configuration that reaches the command line.\<close>

definition configured_text :: "AnalyzerConfig \<Rightarrow> string list" where
  "configured_text cfg =
     cfg_options cfg @ [cfg_output_format cfg]
       @ (case cfg_output_template cfg of None \<Rightarrow> [] | Some t \<Rightarrow> [t])
       @ cfg_message_level cfg @ cfg_defines cfg @ cfg_un_defines cfg
       @ [cfg_standard cfg, cfg_platform cfg]
       @ cfg_includes cfg @ cfg_excludes cfg @ cfg_directories cfg @ cfg_files cfg"

text \<open>The fragments of the command line: the twelve joined first, and those put in front.\<close>

definition base_fragments :: "CppCheckConfig \<Rightarrow> string list" where
  "base_fragments self =
     [threads self, output_format self, message_level self, CppCheckConfig_defines self,
      un_defines self, standard self, platform self, error_exit_code self,
      CppCheckConfig_includes self, excludes self, CppCheckConfig_directories self,
      CppCheckConfig_files self]"

definition prepended_fragments :: "CppCheckConfig \<Rightarrow> string \<Rightarrow> string list" where
  "prepended_fragments self p =
     (if options self \<noteq> [] then [options self] else [])
       @ (if add_ons self then [''--dump''] else [])
       @ (if p \<noteq> [] then [''--suppressions-list='' @ p] else [])"

section \<open>Properties of clangformat.py\<close>

text \<open>
  C8: with \<^verbatim>\<open>inplace\<close> true, \<^verbatim>\<open>build_file_command\<close> returns \<^verbatim>\<open>-i -style=S \<close> followed by the
  real path of the file joined to the working directory, \<open>S\<close> being the configured style.
\<close>

theorem build_file_command_inplace:
  "cf_inplace self \<Longrightarrow>
     build_file_command os d self file wd =
       ''-i -style='' @ cf_style self @ '' '' @ realpath os d (path_join os wd file)"
  by (simp add: build_file_command_def inplace_def style_def)

theorem build_file_command_inplace_witness:
  "cf_inplace sample_formatter_config \<and>
   build_file_command sample_os sample_disk sample_formatter_config ''a.cpp'' ''/proj''
     = ''-i -style=file /proj/a.cpp''"
  using build_file_command_inplace
          [of sample_formatter_config sample_os sample_disk "''a.cpp''" "''/proj''"]
  by (simp add: sample_formatter_config_def sample_os_def posix_join_def)

subsection \<open>Stopping at the first output on standard error\<close>

lemma execute_shell_cmd_procs:
  "execute_shell_cmd os command wd w = (r, w1) \<Longrightarrow>
     \<exists>cwd. procs w1 = procs w @ [(command, cwd, r)]"
  by (auto simp: execute_shell_cmd_def Let_def split: prod.splits)

lemma print_procs: "procs (print s w) = procs w"
  by (simp add: print_def)

lemma stderr_of_run: "stderr_of (c, cwd, rc, out, err) = err"
  by (simp add: stderr_of_def)

lemma return_code_of_run: "return_code_of (c, cwd, rc, out, err) = rc"
  by (simp add: return_code_of_def)

lemma execute_files_runs:
  "execute_files os self fs w = (r, w') \<Longrightarrow>
     \<exists>new. procs w' = procs w @ new \<and> length new \<le> length fs \<and>
       (case r of
          None \<Rightarrow> length new = length fs \<and> (\<forall>p\<in>set new. stderr_of p = [])
        | Some rc \<Rightarrow> new \<noteq> [] \<and> (\<forall>p\<in>set (butlast new). stderr_of p = []) \<and>
                     stderr_of (last new) \<noteq> [] \<and> rc = return_code_of (last new))"
proof (induction fs arbitrary: w)
  case Nil
  then show ?case by auto
next
  case (Cons fl rest)
  let ?command = "template (clang_format_exe self)
                    (build_file_command os (disk w) (config self) fl (project_file_dir self))"
  obtain rc out err w1 where sh:
    "execute_shell_cmd os ?command (Some (working_dir self)) w = ((rc, out, err), w1)"
    by (metis prod_cases3 surj_pair)
  from execute_shell_cmd_procs [OF sh] obtain cwd where
    p1: "procs w1 = procs w @ [(?command, cwd, rc, out, err)]" by blast
  show ?case
  proof (cases "err = []")
    case True
    with Cons.prems sh have rec: "execute_files os self rest w1 = (r, w')" by simp
    from Cons.IH [OF rec] obtain new where
      n: "procs w' = procs w1 @ new" "length new \<le> length rest"
         "(case r of
             None \<Rightarrow> length new = length rest \<and> (\<forall>p\<in>set new. stderr_of p = [])
           | Some rc \<Rightarrow> new \<noteq> [] \<and> (\<forall>p\<in>set (butlast new). stderr_of p = []) \<and>
                        stderr_of (last new) \<noteq> [] \<and> rc = return_code_of (last new))"
      by blast
    let ?new = "(?command, cwd, rc, out, err) # new"
    have "procs w' = procs w @ ?new" using n(1) p1 by simp
    moreover have "length ?new \<le> length (fl # rest)" using n(2) by simp
    moreover have "(case r of
             None \<Rightarrow> length ?new = length (fl # rest) \<and> (\<forall>p\<in>set ?new. stderr_of p = [])
           | Some rc \<Rightarrow> ?new \<noteq> [] \<and> (\<forall>p\<in>set (butlast ?new). stderr_of p = []) \<and>
                        stderr_of (last ?new) \<noteq> [] \<and> rc = return_code_of (last ?new))"
      using n(3) True by (auto simp: stderr_of_run split: option.splits)
    ultimately show ?thesis by blast
  next
    case False
    with Cons.prems sh have r: "r = Some rc" and w': "w' = print err w1" by simp_all
    have "procs w' = procs w @ [(?command, cwd, rc, out, err)]"
      using w' p1 by (simp add: print_procs)
    then show ?thesis
      using r False by (auto simp: stderr_of_run return_code_of_run)
  qed
qed

lemma execute_directories_runs:
  "execute_directories os self fs w = (r, w') \<Longrightarrow>
     \<exists>new. procs w' = procs w @ new \<and> length new \<le> length fs \<and>
       (case r of
          None \<Rightarrow> length new = length fs \<and> (\<forall>p\<in>set new. stderr_of p = [])
        | Some rc \<Rightarrow> new \<noteq> [] \<and> (\<forall>p\<in>set (butlast new). stderr_of p = []) \<and>
                     stderr_of (last new) \<noteq> [] \<and> rc = return_code_of (last new))"
proof (induction fs arbitrary: w)
  case Nil
  then show ?case by auto
next
  case (Cons fl rest)
  let ?command = "template (clang_format_exe self)
                    (build_directory_command os (disk w) (config self) fl (project_file_dir self))"
  obtain rc out err w1 where sh:
    "execute_shell_cmd os ?command (Some (working_dir self)) w = ((rc, out, err), w1)"
    by (metis prod_cases3 surj_pair)
  from execute_shell_cmd_procs [OF sh] obtain cwd where
    p1: "procs w1 = procs w @ [(?command, cwd, rc, out, err)]" by blast
  show ?case
  proof (cases "err = []")
    case True
    with Cons.prems sh have rec: "execute_directories os self rest w1 = (r, w')" by (simp add: Let_def)
    from Cons.IH [OF rec] obtain new where
      n: "procs w' = procs w1 @ new" "length new \<le> length rest"
         "(case r of
             None \<Rightarrow> length new = length rest \<and> (\<forall>p\<in>set new. stderr_of p = [])
           | Some rc \<Rightarrow> new \<noteq> [] \<and> (\<forall>p\<in>set (butlast new). stderr_of p = []) \<and>
                        stderr_of (last new) \<noteq> [] \<and> rc = return_code_of (last new))"
      by blast
    let ?new = "(?command, cwd, rc, out, err) # new"
    have "procs w' = procs w @ ?new" using n(1) p1 by simp
    moreover have "length ?new \<le> length (fl # rest)" using n(2) by simp
    moreover have "(case r of
             None \<Rightarrow> length ?new = length (fl # rest) \<and> (\<forall>p\<in>set ?new. stderr_of p = [])
           | Some rc \<Rightarrow> ?new \<noteq> [] \<and> (\<forall>p\<in>set (butlast ?new). stderr_of p = []) \<and>
                        stderr_of (last ?new) \<noteq> [] \<and> rc = return_code_of (last ?new))"
      using n(3) True by (auto simp: stderr_of_run split: option.splits)
    ultimately show ?thesis by blast
  next
    case False
    with Cons.prems sh have r: "r = Some rc" and w': "w' = print err w1" by (simp_all add: Let_def)
    have "procs w' = procs w @ [(?command, cwd, rc, out, err)]"
      using w' p1 by (simp add: print_procs)
    then show ?thesis
      using r False by (auto simp: stderr_of_run return_code_of_run)
  qed
qed

text \<open>
  C6: the processes run by \<^verbatim>\<open>ClangFormatter.execute\<close> are added to the log in order,
  at most one for each file and directory. If none of them wrote to standard error, all
  files and directories were handled and 0 is returned. Otherwise the last process run
  is the only one that wrote to standard error, so no file or directory after it was
  handled, and its return code is returned.
\<close>

theorem formatter_stops_at_first_stderr:
  assumes "ClangFormatter_execute os self w = (rc, w')"
  shows "\<exists>new. procs w' = procs w @ new \<and>
           length new \<le> length (cf_files (config self)) + length (cf_directories (config self)) \<and>
           (if \<forall>p\<in>set new. stderr_of p = []
            then rc = 0 \<and>
                 length new = length (cf_files (config self)) + length (cf_directories (config self))
            else stderr_of (last new) \<noteq> [] \<and> (\<forall>p\<in>set (butlast new). stderr_of p = []) \<and>
                 rc = return_code_of (last new))"
proof -
  obtain r1 w1 where f: "execute_files os self (cf_files (config self)) w = (r1, w1)"
    by (metis surj_pair)
  from execute_files_runs [OF f] obtain new1 where
    n1: "procs w1 = procs w @ new1" "length new1 \<le> length (cf_files (config self))"
        "(case r1 of
            None \<Rightarrow> length new1 = length (cf_files (config self)) \<and> (\<forall>p\<in>set new1. stderr_of p = [])
          | Some rc \<Rightarrow> new1 \<noteq> [] \<and> (\<forall>p\<in>set (butlast new1). stderr_of p = []) \<and>
                       stderr_of (last new1) \<noteq> [] \<and> rc = return_code_of (last new1))"
    by blast
  show ?thesis
  proof (cases r1)
    case (Some c)
    with assms f have "rc = c" "w' = w1" by (simp_all add: ClangFormatter_execute_def)
    moreover have "last new1 \<in> set new1" using n1(3) Some by simp
    ultimately show ?thesis using n1 Some by (intro exI [of _ new1]) auto
  next
    case None
    obtain r2 w2 where d: "execute_directories os self (cf_directories (config self)) w1 = (r2, w2)"
      by (metis surj_pair)
    from execute_directories_runs [OF d] obtain new2 where
      n2: "procs w2 = procs w1 @ new2" "length new2 \<le> length (cf_directories (config self))"
          "(case r2 of
              None \<Rightarrow> length new2 = length (cf_directories (config self)) \<and>
                       (\<forall>p\<in>set new2. stderr_of p = [])
            | Some rc \<Rightarrow> new2 \<noteq> [] \<and> (\<forall>p\<in>set (butlast new2). stderr_of p = []) \<and>
                         stderr_of (last new2) \<noteq> [] \<and> rc = return_code_of (last new2))"
      by blast
    have all1: "\<forall>p\<in>set new1. stderr_of p = []" and len1: "length new1 = length (cf_files (config self))"
      using n1(3) None by simp_all
    have pw: "procs w2 = procs w @ (new1 @ new2)" using n1(1) n2(1) by simp
    show ?thesis
    proof (cases r2)
      case None2: None
      with assms f d None have "rc = 0" "w' = w2" by (simp_all add: ClangFormatter_execute_def)
      then show ?thesis using pw all1 len1 n2 None2 by (intro exI [of _ "new1 @ new2"]) auto
    next
      case (Some c)
      with assms f d None have rcw: "rc = c" "w' = w2" by (simp_all add: ClangFormatter_execute_def)
      have ne: "new2 \<noteq> []" and bl: "\<forall>p\<in>set (butlast new2). stderr_of p = []"
        and la: "stderr_of (last new2) \<noteq> []" and c: "c = return_code_of (last new2)"
        using n2(3) Some by simp_all
      have "last new2 \<in> set (new1 @ new2)" using ne by simp
      then have "\<not> (\<forall>p\<in>set (new1 @ new2). stderr_of p = [])" using la by blast
      moreover have "last (new1 @ new2) = last new2" using ne by simp
      moreover have "butlast (new1 @ new2) = new1 @ butlast new2" using ne by (simp add: butlast_append)
      ultimately show ?thesis
        using pw rcw len1 n2(2) all1 bl la c by (intro exI [of _ "new1 @ new2"]) auto
    qed
  qed
qed

lemma sample_formatter_run:
  "ClangFormatter_execute sample_os sample_formatter sample_world = (1, sample_formatter_result)"
  by (simp add: ClangFormatter_execute_def sample_formatter_def sample_formatter_config_def
        sample_world_def sample_os_def execute_shell_cmd_def template_def format_opt_def
        build_file_command_def build_directory_command_def inplace_def style_def posix_join_def
        sample_popen_def sample_glob_def print_def sample_formatter_result_def Let_def)

theorem formatter_stops_at_first_stderr_witness:
  "ClangFormatter_execute sample_os sample_formatter sample_world = (1, sample_formatter_result) \<and>
   (\<exists>new. procs sample_formatter_result = procs sample_world @ new \<and>
      length new \<le> length (cf_files (config sample_formatter))
                      + length (cf_directories (config sample_formatter)) \<and>
      (if \<forall>p\<in>set new. stderr_of p = []
       then 1 = (0::int) \<and>
            length new = length (cf_files (config sample_formatter))
                           + length (cf_directories (config sample_formatter))
       else stderr_of (last new) \<noteq> [] \<and> (\<forall>p\<in>set (butlast new). stderr_of p = []) \<and>
            1 = return_code_of (last new)))"
  using sample_formatter_run formatter_stops_at_first_stderr [OF sample_formatter_run]
  by (rule conjI)

section \<open>Properties of cppcheck.py\<close>

subsection \<open>The output template\<close>

text \<open>
  C10: the output-format fragment is \<^verbatim>\<open>--template="<output_template>"\<close> when the
  configured template is a non-empty string, and \<^verbatim>\<open>--template="<output_format>"\<close> when
  it is \<^verbatim>\<open>null\<close> or empty: the template takes priority over the format.
\<close>

theorem output_format_template_priority:
  "(cfg_output_template (p_raw_config self) = Some t \<and> t \<noteq> [] \<longrightarrow>
      output_format self = ''--template='' @ [CHR 0x22] @ t @ [CHR 0x22]) \<and>
   (cfg_output_template (p_raw_config self) = None \<or>
    cfg_output_template (p_raw_config self) = Some [] \<longrightarrow>
      output_format self =
        ''--template='' @ [CHR 0x22] @ cfg_output_format (p_raw_config self) @ [CHR 0x22])"
  by (auto simp: output_format_def template_flag_def)

theorem output_format_template_priority_witness:
  "output_format (template_config ''{file}:{line}'')
     = ''--template='' @ [CHR 0x22] @ ''{file}:{line}'' @ [CHR 0x22] \<and>
   output_format sample_config = ''--template='' @ [CHR 0x22] @ ''gcc'' @ [CHR 0x22] \<and>
   output_format (template_config []) = ''--template='' @ [CHR 0x22] @ ''gcc'' @ [CHR 0x22]"
  using output_format_template_priority [of "template_config ''{file}:{line}''" "''{file}:{line}''"]
        output_format_template_priority [of sample_config "[]"]
        output_format_template_priority [of "template_config []" "[]"]
  by (simp add: template_config_def sample_config_def sample_analyzer_config_def)

subsection \<open>Running an unknown configuration\<close>

text \<open>
  C9: for a configuration name that is not a key of the loaded configurations,
  \<^verbatim>\<open>CppCheck.execute\<close> returns 0 and leaves the runner and the world as they were: no
  process is run, no directory is made, no file is written.
\<close>

theorem execute_unknown_configuration:
  "configurations self cfg_name = None \<Longrightarrow>
     CppCheck_execute os self cfg_name wd w = (Inr 0, self, w)"
  by (simp add: CppCheck_execute_def)

theorem execute_unknown_configuration_witness:
  "configurations (CppCheck_init ''cppcheck'') ''thor'' = None \<and>
   CppCheck_execute sample_os (CppCheck_init ''cppcheck'') ''thor'' ''/work'' sample_world
     = (Inr 0, CppCheck_init ''cppcheck'', sample_world)"
  using execute_unknown_configuration
          [of "CppCheck_init ''cppcheck''" "''thor''" sample_os "''/work''" sample_world]
  by (simp add: CppCheck_init_def)

subsection \<open>The version query\<close>

text \<open>
  \<^verbatim>\<open>cppcheck\<close> returns three values and \<^verbatim>\<open>version\<close> unpacks them into two names, so
  the query raises \<^verbatim>\<open>ValueError\<close> whatever the tool printed.
\<close>

lemma version_always_raises: "fst (version os self w) = Inl ValueError"
  by (simp add: version_def unpack2_def split: prod.splits)

text \<open>
  C7 says that the version query of a tool that prints nothing gives \<^verbatim>\<open>'unknown'\<close>
  and does not raise. With such a tool the query raises \<^verbatim>\<open>ValueError\<close>.
\<close>

theorem version_raises_on_empty_output:
  "fst (popen silent_os (disk sample_world) ''cppcheck --version'' ''/work'') = (0, [], []) \<and>
   fst (version silent_os (CppCheck_init ''cppcheck'') sample_world) = Inl ValueError"
  by (simp add: version_def unpack2_def silent_os_def split: prod.splits)

subsection \<open>An empty suppression list\<close>

text \<open>
  C1 says that with a suppression list that is empty or \<^verbatim>\<open>null\<close>,
  \<^verbatim>\<open>generate_suppression_list\<close> returns a falsy value and \<^verbatim>\<open>build_command\<close> leaves
  \<^verbatim>\<open>--suppressions-list\<close> out. Both raise \<^verbatim>\<open>TypeError\<close> instead, from
  \<^verbatim>\<open>os.path.commonprefix\<close> applied to \<^verbatim>\<open>None\<close>; nothing is written.
\<close>

theorem empty_suppression_raises:
  "cfg_suppression (p_raw_config self) = None \<or> cfg_suppression (p_raw_config self) = Some [] \<Longrightarrow>
     generate_suppression_list os self w = (Inl TypeError, w) \<and>
     build_command os self w = (Inl TypeError, w)"
  by (auto simp: generate_suppression_list_def build_command_def)

theorem empty_suppression_raises_witness:
  "cfg_suppression (p_raw_config no_suppression_config) = Some [] \<and>
   generate_suppression_list sample_os no_suppression_config sample_world
     = (Inl TypeError, sample_world) \<and>
   build_command sample_os no_suppression_config sample_world = (Inl TypeError, sample_world)"
  using empty_suppression_raises [of no_suppression_config sample_os sample_world]
  by (simp add: no_suppression_config_def)

subsection \<open>Writing the suppression list\<close>

lemma write_items_all_pass:
  "\<forall>e\<in>set items. isfile os d (expandvars os (se_filename e)) \<Longrightarrow>
     write_items os d items acc = (None, acc @ concat (map (entry_text os) items))"
  by (induction items arbitrary: acc) (simp_all add: entry_text_def Let_def)

lemma write_items_first_failure:
  "\<forall>e\<in>set pre. isfile os d (expandvars os (se_filename e)) \<Longrightarrow>
   \<not> isfile os d (expandvars os (se_filename bad)) \<Longrightarrow>
     write_items os d (pre @ bad # post) acc =
       (Some (RuntimeError (''Invalid path: '' @ expandvars os (se_filename bad))),
        acc @ concat (map (entry_text os) pre))"
  by (induction pre arbitrary: acc) (simp_all add: entry_text_def Let_def)

lemma write_file_twice: "write_file os f t (write_file os f t0 d) = write_file os f t d"
  by (simp add: write_file_def)

lemma isfile_after_open:
  "isfile os (write_file os f [] d) p \<longleftrightarrow>
     isfile os d p \<or> (p \<noteq> [] \<and> canonical os p = canonical os f)"
  by (auto simp: isfile_def write_file_def)

lemma generate_first_failure:
  assumes "cfg_suppression (p_raw_config self) = Some (pre @ bad # post)"
      and "\<forall>e\<in>set pre. passes_check os self w e"
      and "\<not> passes_check os self w bad"
  shows "generate_suppression_list os self w =
           (Inl (RuntimeError (''Invalid path: '' @ expandvars os (se_filename bad))),
            w\<lparr>disk := write_file os (act_out_file os self) (concat (map (entry_text os) pre)) (disk w)\<rparr>)"
  using assms write_items_first_failure
          [where pre = pre and d = "write_file os (act_out_file os self) [] (disk w)" and os = os
             and bad = bad and post = post and acc = "[]"]
  by (simp add: generate_suppression_list_def passes_check_def write_file_twice Let_def)

lemma generate_all_pass_disk:
  assumes "cfg_suppression (p_raw_config self) = Some items"
      and "items \<noteq> []"
      and "\<forall>e\<in>set items. passes_check os self w e"
  shows "snd (generate_suppression_list os self w) =
            w\<lparr>disk := write_file os (act_out_file os self) (concat (map (entry_text os) items)) (disk w)\<rparr>"
  using assms write_items_all_pass
          [where items = items and d = "write_file os (act_out_file os self) [] (disk w)"
             and os = os and acc = "[]"]
  by (simp add: generate_suppression_list_def passes_check_def write_file_twice Let_def split: sum.splits)

lemma expandvars_empty: "expandvars os [] = []"
  by (simp add: expandvars_def)

lemma empty_name_fails_check: "se_filename item = [] \<Longrightarrow> \<not> passes_check os self w item"
  by (simp add: passes_check_def expandvars_empty isfile_def)

lemmas sample_defs = config_with_entries_def entry_for_def sample_config_def
  sample_analyzer_config_def sample_entry_def sample_world_def sample_disk_def sample_os_def
  posix_join_def sample_relpath_def

lemmas gen_defs = generate_suppression_list_def act_out_file_def name_def write_file_def
  isfile_def expandvars_def output_string_def strip_colon_def strip_with_def
  str_int_def str_nat.simps digit_char_def os_path_relpath_def Let_def

lemma sample_act_out_file:
  "act_out_file sample_os (config_with_entries es) = ''/work/out/thor/thor_suppression_list.txt''"
  by (simp add: sample_defs act_out_file_def name_def)

text \<open>
  C5 says that an entry with an empty \<^verbatim>\<open>filename\<close> gets the suppression line
  \<^verbatim>\<open><error_id>\<close>. The existence check comes first and the empty path is no file, so a
  list with such an entry makes \<^verbatim>\<open>generate_suppression_list\<close> raise \<^verbatim>\<open>RuntimeError\<close>.
\<close>

theorem blank_filename_raises:
  assumes "cfg_suppression (p_raw_config self) = Some items"
      and "item \<in> set items"
      and "se_filename item = []"
  shows "\<exists>fn. fst (generate_suppression_list os self w) = Inl (RuntimeError (''Invalid path: '' @ fn))"
proof -
  have "\<exists>e\<in>set items. \<not> passes_check os self w e"
    using assms(2,3) empty_name_fails_check by blast
  then obtain pre bad post where
    split: "items = pre @ bad # post" "\<not> passes_check os self w bad"
           "\<forall>e\<in>set pre. \<not> \<not> passes_check os self w e"
    using split_list_first_prop [of items "\<lambda>e. \<not> passes_check os self w e"] by blast
  then show ?thesis
    using generate_first_failure [of self pre bad post os w] assms(1) by auto
qed

theorem blank_filename_raises_witness:
  "fst (generate_suppression_list sample_os (config_with_entries [entry_for []]) sample_world)
     = Inl (RuntimeError ''Invalid path: '') \<and>
   (\<exists>fn. fst (generate_suppression_list sample_os (config_with_entries [entry_for []]) sample_world)
     = Inl (RuntimeError (''Invalid path: '' @ fn)))"
  using blank_filename_raises [of "config_with_entries [entry_for []]" "[entry_for []]"
          "entry_for []" sample_os sample_world]
  by (simp add: sample_defs gen_defs)

text \<open>
  C2 as stated: an entry whose file does not exist makes \<^verbatim>\<open>generate_suppression_list\<close>
  raise before any file is written. With one such entry it raises, and the suppression
  list, which did not exist, is an empty file afterwards.
\<close>

theorem missing_file_counterexample:
  "\<not> isfile sample_os (disk sample_world) ''/work/src/missing.cpp'' \<and>
   files_on (disk sample_world) ''/work/out/thor/thor_suppression_list.txt'' = None \<and>
   fst (generate_suppression_list sample_os
          (config_with_entries [entry_for ''/work/src/missing.cpp'']) sample_world)
     = Inl (RuntimeError ''Invalid path: /work/src/missing.cpp'') \<and>
   files_on (disk (snd (generate_suppression_list sample_os
          (config_with_entries [entry_for ''/work/src/missing.cpp'']) sample_world)))
       ''/work/out/thor/thor_suppression_list.txt'' = Some []"
  by (simp add: sample_defs gen_defs)

text \<open>
  C2 amended: when the list has an entry whose expanded file name stands neither for an
  existing file nor, under any spelling, for the suppression list itself,
  \<^verbatim>\<open>generate_suppression_list\<close> raises \<^verbatim>\<open>RuntimeError\<close> at the first entry that fails the
  check; the suppression list has been created or emptied by then and holds the text of
  the entries before that one.
\<close>

theorem missing_file_raises_after_open:
  assumes "cfg_suppression (p_raw_config self) = Some items"
      and "item \<in> set items"
      and "\<not> isfile os (disk w) (expandvars os (se_filename item))"
      and "canonical os (expandvars os (se_filename item)) \<noteq> canonical os (act_out_file os self)"
  shows "\<exists>pre bad post.
           items = pre @ bad # post \<and>
           (\<forall>e\<in>set pre. passes_check os self w e) \<and> \<not> passes_check os self w bad \<and>
           generate_suppression_list os self w =
             (Inl (RuntimeError (''Invalid path: '' @ expandvars os (se_filename bad))),
              w\<lparr>disk := write_file os (act_out_file os self)
                          (concat (map (entry_text os) pre)) (disk w)\<rparr>)"
proof -
  have "\<not> passes_check os self w item"
    using assms(3,4) by (simp add: passes_check_def isfile_after_open)
  then have "\<exists>e\<in>set items. \<not> passes_check os self w e"
    using assms(2) by blast
  then obtain pre bad post where
    split: "items = pre @ bad # post" "\<not> passes_check os self w bad"
           "\<forall>e\<in>set pre. \<not> \<not> passes_check os self w e"
    using split_list_first_prop [of items "\<lambda>e. \<not> passes_check os self w e"] by blast
  then show ?thesis
    using generate_first_failure [of self pre bad post os w] assms(1) by auto
qed

theorem missing_file_raises_after_open_witness:
  "cfg_suppression (p_raw_config
      (config_with_entries [sample_entry, entry_for ''/work/src/missing.cpp'']))
     = Some [sample_entry, entry_for ''/work/src/missing.cpp''] \<and>
   entry_for ''/work/src/missing.cpp'' \<in> set [sample_entry, entry_for ''/work/src/missing.cpp''] \<and>
   \<not> isfile sample_os (disk sample_world)
       (expandvars sample_os (se_filename (entry_for ''/work/src/missing.cpp''))) \<and>
   canonical sample_os (expandvars sample_os (se_filename (entry_for ''/work/src/missing.cpp'')))
     \<noteq> canonical sample_os (act_out_file sample_os
          (config_with_entries [sample_entry, entry_for ''/work/src/missing.cpp''])) \<and>
   (\<exists>pre bad post.
      [sample_entry, entry_for ''/work/src/missing.cpp''] = pre @ bad # post \<and>
      (\<forall>e\<in>set pre. passes_check sample_os
          (config_with_entries [sample_entry, entry_for ''/work/src/missing.cpp'']) sample_world e) \<and>
      \<not> passes_check sample_os
          (config_with_entries [sample_entry, entry_for ''/work/src/missing.cpp'']) sample_world bad \<and>
      generate_suppression_list sample_os
          (config_with_entries [sample_entry, entry_for ''/work/src/missing.cpp'']) sample_world =
        (Inl (RuntimeError (''Invalid path: '' @ expandvars sample_os (se_filename bad))),
         sample_world\<lparr>disk := write_file sample_os
            (act_out_file sample_os
               (config_with_entries [sample_entry, entry_for ''/work/src/missing.cpp'']))
            (concat (map (entry_text sample_os) pre)) (disk sample_world)\<rparr>))"
proof -
  let ?cfg = "config_with_entries [sample_entry, entry_for ''/work/src/missing.cpp'']"
  have h1: "cfg_suppression (p_raw_config ?cfg)
              = Some [sample_entry, entry_for ''/work/src/missing.cpp'']"
    by (simp add: config_with_entries_def)
  have h2: "entry_for ''/work/src/missing.cpp''
              \<in> set [sample_entry, entry_for ''/work/src/missing.cpp'']"
    by simp
  have h3: "\<not> isfile sample_os (disk sample_world)
              (expandvars sample_os (se_filename (entry_for ''/work/src/missing.cpp'')))"
    by (simp add: sample_defs isfile_def expandvars_def)
  have h4: "canonical sample_os
              (expandvars sample_os (se_filename (entry_for ''/work/src/missing.cpp'')))
              \<noteq> canonical sample_os (act_out_file sample_os ?cfg)"
    by (simp add: sample_act_out_file)
       (simp add: entry_for_def expandvars_def sample_os_def posix_join_def)
  show ?thesis
    using h1 h2 h3 h4 missing_file_raises_after_open [OF h1 h2 h3 h4] by (intro conjI)
qed

text \<open>
  The check is made once the file is open: an entry that names the suppression list
  itself, here by its name relative to the working directory, passes it although no such
  file existed before the call.
\<close>

lemma own_name_passes_check:
  "\<not> isfile sample_os (disk sample_world) ''out/thor/thor_suppression_list.txt'' \<and>
   ''out/thor/thor_suppression_list.txt''
     \<noteq> act_out_file sample_os
          (config_with_entries [entry_for ''out/thor/thor_suppression_list.txt'']) \<and>
   fst (generate_suppression_list sample_os
          (config_with_entries [entry_for ''out/thor/thor_suppression_list.txt''])
          sample_world)
     = Inr ''out/thor/thor_suppression_list.txt''"
  by (simp add: sample_defs gen_defs)

subsection \<open>The text written for one entry\<close>

lemma before_double_colon_id: "\<not> has_double_colon s \<Longrightarrow> before_double_colon s = s"
  by (induction s rule: before_double_colon.induct) auto

lemma has_double_colon_append:
  "has_double_colon (xs @ ys) \<longleftrightarrow>
     has_double_colon xs \<or> has_double_colon ys \<or>
     (xs \<noteq> [] \<and> ys \<noteq> [] \<and> last xs = CHR '':'' \<and> hd ys = CHR '':'')"
proof (induction xs)
  case Nil
  then show ?case by simp
next
  case (Cons a xs)
  show ?case
  proof (cases xs)
    case Nil
    then show ?thesis by (cases ys) auto
  next
    case (Cons b zs)
    with Cons.IH show ?thesis by auto
  qed
qed

lemma strip_with_id: "s \<noteq> [] \<Longrightarrow> \<not> P (hd s) \<Longrightarrow> \<not> P (last s) \<Longrightarrow> strip_with P s = s"
proof -
  assume a: "s \<noteq> []" "\<not> P (hd s)" "\<not> P (last s)"
  then have "dropWhile P s = s" by (cases s) auto
  moreover have "dropWhile P (rev s) = rev s"
    using a by (cases "rev s") (auto simp: last_rev hd_rev)
  ultimately show ?thesis by (simp add: strip_with_def)
qed

lemma str_int_42: "str_int 42 = ''42''"
  by (simp add: str_int_def str_nat.simps digit_char_def)

lemma output_string_plain:
  assumes "se_error_id item = ''nullPointer''" and "se_line item = JInt 42"
      and "\<not> has_double_colon ('':'' @ fn @ '':'')"
  shows "output_string item fn = ''nullPointer:'' @ fn @ '':42''"
proof -
  let ?s = "''nullPointer:'' @ fn @ '':42''"
  have eq: "?s = ''nullPointer'' @ (('':'' @ fn @ '':'') @ ''42'')" by simp
  have "\<not> has_double_colon (('':'' @ fn @ '':'') @ ''42'')"
    using assms(3) by (subst has_double_colon_append) simp
  then have "\<not> has_double_colon ?s"
    unfolding eq by (subst has_double_colon_append) simp
  then have "before_double_colon ?s = ?s" by (rule before_double_colon_id)
  moreover have "strip_colon ?s = ?s"
    unfolding strip_colon_def by (rule strip_with_id) simp_all
  ultimately show ?thesis
    using assms(1,2) by (simp add: output_string_def str_int_42)
qed

lemma passes_check_if_file:
  "isfile os (disk w) (expandvars os (se_filename e)) \<Longrightarrow> passes_check os self w e"
  by (simp add: passes_check_def isfile_after_open)

text \<open>
  C4 as stated: an entry with \<^verbatim>\<open>nullPointer\<close>, line 42 and comment \<^verbatim>\<open>x\<close> gives exactly
  the two lines \<^verbatim>\<open>// x\<close> and \<^verbatim>\<open>nullPointer:<abs path>:42\<close>. For the existing file
  \<^verbatim>\<open>lib/util.cpp\<close> the file written has three lines: the file name is left relative
  and a blank line follows.
\<close>

theorem two_lines_counterexample:
  "isfile sample_os (disk sample_world) ''lib/util.cpp'' \<and>
   map_option splitlines
     (files_on (disk (snd (generate_suppression_list sample_os
          (config_with_entries [entry_for ''lib/util.cpp'']) sample_world)))
       ''/work/out/thor/thor_suppression_list.txt'')
     = Some [''// x'', ''nullPointer:lib/util.cpp:42'', []]"
  by (simp add: sample_defs gen_defs splitlines_def)

text \<open>
  C4 amended: when every entry of the list names an existing file, an entry with
  \<^verbatim>\<open>nullPointer\<close>, line 42 and comment \<^verbatim>\<open>x\<close>, whose expanded file name \<open>fn\<close> has no
  \<^verbatim>\<open>::\<close> in it and no colon at either end, adds to the suppression list the comment line
  \<^verbatim>\<open>// x\<close>, the line \<^verbatim>\<open>nullPointer:fn:42\<close> with the file name as expanded, and one
  blank line, between the text of the entries before it and of those after it.
\<close>

theorem suppression_entry_text:
  assumes "cfg_suppression (p_raw_config self) = Some items"
      and "\<forall>e\<in>set items. isfile os (disk w) (expandvars os (se_filename e))"
      and "i < length items"
      and "se_error_id (items ! i) = ''nullPointer''"
      and "se_line (items ! i) = JInt 42"
      and "se_comment (items ! i) = ''x''"
      and "fn = expandvars os (se_filename (items ! i))"
      and "\<not> has_double_colon ('':'' @ fn @ '':'')"
  shows "files_on (disk (snd (generate_suppression_list os self w)))
           (canonical os (act_out_file os self)) =
           Some (concat (map (entry_text os) (take i items))
                 @ ''// x'' @ [CHR 0x0A] @ ''nullPointer:'' @ fn @ '':42'' @ [CHR 0x0A, CHR 0x0A]
                 @ concat (map (entry_text os) (drop (Suc i) items)))"
proof -
  have ne: "items \<noteq> []" using assms(3) by auto
  have "\<forall>e\<in>set items. passes_check os self w e"
    using assms(2) passes_check_if_file by blast
  from generate_all_pass_disk [OF assms(1) ne this]
  have "files_on (disk (snd (generate_suppression_list os self w)))
          (canonical os (act_out_file os self)) =
          Some (concat (map (entry_text os) items))"
    by (simp add: write_file_def)
  moreover have "items = take i items @ items ! i # drop (Suc i) items"
    using assms(3) by (simp add: id_take_nth_drop)
  then have "concat (map (entry_text os) items) =
               concat (map (entry_text os) (take i items)) @ entry_text os (items ! i)
               @ concat (map (entry_text os) (drop (Suc i) items))"
    by (metis concat.simps(2) concat_append list.simps(9) map_append)
  moreover have "entry_text os (items ! i) =
                   ''// x'' @ [CHR 0x0A] @ ''nullPointer:'' @ fn @ '':42'' @ [CHR 0x0A, CHR 0x0A]"
    using output_string_plain [OF assms(4,5,8)] assms(6,7) by (simp add: entry_text_def)
  ultimately show ?thesis by simp
qed

theorem suppression_entry_text_witness:
  "files_on (disk (snd (generate_suppression_list sample_os (config_with_entries [sample_entry])
                          sample_world)))
       (canonical sample_os (act_out_file sample_os (config_with_entries [sample_entry]))) =
     Some (concat (map (entry_text sample_os) (take 0 [sample_entry]))
           @ ''// x'' @ [CHR 0x0A] @ ''nullPointer:'' @ ''/work/src/main.cpp'' @ '':42''
           @ [CHR 0x0A, CHR 0x0A]
           @ concat (map (entry_text sample_os) (drop (Suc 0) [sample_entry])))"
proof -
  have h1: "cfg_suppression (p_raw_config (config_with_entries [sample_entry]))
              = Some [sample_entry]"
    by (simp add: config_with_entries_def)
  have h2: "\<forall>e\<in>set [sample_entry].
               isfile sample_os (disk sample_world) (expandvars sample_os (se_filename e))"
    by (simp add: sample_defs isfile_def expandvars_def)
  have h3: "0 < length [sample_entry]" by simp
  have h4: "se_error_id ([sample_entry] ! 0) = ''nullPointer''"
    and h5: "se_line ([sample_entry] ! 0) = JInt 42"
    and h6: "se_comment ([sample_entry] ! 0) = ''x''"
    by (simp_all add: sample_entry_def)
  have h7: "''/work/src/main.cpp'' = expandvars sample_os (se_filename ([sample_entry] ! 0))"
    by (simp add: sample_entry_def expandvars_def)
  have h8: "\<not> has_double_colon ('':'' @ ''/work/src/main.cpp'' @ '':'')"
    by simp
  show ?thesis
    by (rule suppression_entry_text [OF h1 h2 h3 h4 h5 h6 h7 h8])
qed

subsection \<open>The order of the command line and its thread flag\<close>

lemma count_dash_j_Cons:
  "count_dash_j (a # r) =
     (if a = CHR ''-'' \<and> r \<noteq> [] \<and> hd r = CHR ''j'' then 1 else 0) + count_dash_j r"
  by (cases r) auto

lemma count_dash_j_append:
  "count_dash_j (xs @ ys) =
     count_dash_j xs + count_dash_j ys +
     (if xs \<noteq> [] \<and> ys \<noteq> [] \<and> last xs = CHR ''-'' \<and> hd ys = CHR ''j'' then 1 else 0)"
proof (induction xs)
  case Nil
  then show ?case by simp
next
  case (Cons a xs)
  show ?case
  proof (cases xs)
    case Nil
    then show ?thesis by (cases ys) (auto simp: count_dash_j_Cons)
  next
    case (Cons b zs)
    with Cons.IH show ?thesis by (auto simp: count_dash_j_Cons)
  qed
qed

lemma count_dash_j_no_j: "CHR ''j'' \<notin> set s \<Longrightarrow> count_dash_j s = 0"
proof (induction s)
  case Nil
  then show ?case by simp
next
  case (Cons a s)
  then show ?case by (cases s) (auto simp: count_dash_j_Cons)
qed

lemma set_str_nat: "set (str_nat n) \<subseteq> set ''0123456789''"
proof (induction n rule: str_nat.induct)
  case (1 n)
  have d: "\<And>k. digit_char k \<in> set ''0123456789''"
    unfolding digit_char_def by (rule nth_mem) simp
  show ?case
  proof (cases "n < 10")
    case True
    then show ?thesis using d [of n] by (subst str_nat.simps) simp
  next
    case False
    then show ?thesis using 1 d [of "n mod 10"] by (subst str_nat.simps) simp
  qed
qed

lemma count_dash_j_str_int: "count_dash_j (str_int i) = 0"
proof -
  have "CHR ''j'' \<notin> set (str_int i)"
    using set_str_nat [of "nat i"] set_str_nat [of "nat (- i)"] by (auto simp: str_int_def)
  then show ?thesis by (rule count_dash_j_no_j)
qed

lemma count_dash_j_join_space:
  "count_dash_j (str_join '' '' xs) = sum_list (map count_dash_j xs)"
  by (induction "'' ''" xs rule: str_join.induct)
     (simp_all add: count_dash_j_append count_dash_j_Cons)

lemma count_dash_j_join_comma:
  "count_dash_j (str_join '','' xs) = sum_list (map count_dash_j xs)"
  by (induction "'',''" xs rule: str_join.induct)
     (simp_all add: count_dash_j_append count_dash_j_Cons)

lemma count_dash_j_suffix: "count_dash_j ys \<le> count_dash_j (xs @ ys)"
  by (simp add: count_dash_j_append)

lemma count_dash_j_prefix: "count_dash_j xs \<le> count_dash_j (xs @ ys)"
  by (simp add: count_dash_j_append)

lemma count_dash_j_strip_with: "count_dash_j (strip_with P s) \<le> count_dash_j s"
proof -
  let ?t = "dropWhile P s"
  have "count_dash_j ?t \<le> count_dash_j s"
    using count_dash_j_suffix [of ?t "takeWhile P s"] by simp
  moreover have "?t = rev (dropWhile P (rev ?t)) @ rev (takeWhile P (rev ?t))"
    by (metis rev_append rev_rev_ident takeWhile_dropWhile_id)
  then have "count_dash_j (rev (dropWhile P (rev ?t))) \<le> count_dash_j ?t"
    using count_dash_j_prefix by metis
  ultimately show ?thesis by (simp add: strip_with_def)
qed

lemma count_dash_j_strip: "count_dash_j s = 0 \<Longrightarrow> count_dash_j (strip s) = 0"
  using count_dash_j_strip_with [of is_space s] by (simp add: strip_def)

lemma sum_list_zero: "\<forall>x\<in>set xs. f x = (0::nat) \<Longrightarrow> sum_list (map f xs) = 0"
  by (induction xs) auto

lemma count_dash_j_join_map:
  "\<forall>x\<in>set xs. count_dash_j (f x) = 0 \<Longrightarrow> count_dash_j (str_join '' '' (map f xs)) = 0"
  by (simp add: count_dash_j_join_space sum_list_zero)

lemma free_of_dash_j_configured:
  assumes "free_of_dash_j (configured_text cfg)"
  shows "\<forall>s\<in>set (cfg_options cfg). count_dash_j s = 0"
    and "count_dash_j (cfg_output_format cfg) = 0"
    and "\<And>t. cfg_output_template cfg = Some t \<Longrightarrow> count_dash_j t = 0"
    and "\<forall>s\<in>set (cfg_message_level cfg). count_dash_j s = 0"
    and "\<forall>s\<in>set (cfg_defines cfg). count_dash_j s = 0"
    and "\<forall>s\<in>set (cfg_un_defines cfg). count_dash_j s = 0"
    and "count_dash_j (cfg_standard cfg) = 0"
    and "count_dash_j (cfg_platform cfg) = 0"
    and "\<forall>s\<in>set (cfg_includes cfg). count_dash_j s = 0"
    and "\<forall>s\<in>set (cfg_excludes cfg). count_dash_j s = 0"
    and "\<forall>s\<in>set (cfg_directories cfg). count_dash_j s = 0"
    and "\<forall>s\<in>set (cfg_files cfg). count_dash_j s = 0"
  using assms by (auto simp: free_of_dash_j_def configured_text_def)

lemma count_threads: "count_dash_j (threads self) = 1"
  by (simp add: threads_def count_dash_j_Cons count_dash_j_str_int)

lemma count_template_flag: "count_dash_j (template_flag v) = count_dash_j v"
  by (simp add: template_flag_def count_dash_j_Cons count_dash_j_append)

lemma count_output_format:
  "free_of_dash_j (configured_text (p_raw_config self)) \<Longrightarrow> count_dash_j (output_format self) = 0"
  using free_of_dash_j_configured(2,3) [of "p_raw_config self"]
  by (simp add: output_format_def count_template_flag split: option.splits)

lemma count_message_level:
  "free_of_dash_j (configured_text (p_raw_config self)) \<Longrightarrow> count_dash_j (message_level self) = 0"
proof -
  assume a: "free_of_dash_j (configured_text (p_raw_config self))"
  have "count_dash_j (str_join '','' (cfg_message_level (p_raw_config self))) = 0"
    using free_of_dash_j_configured(4) [OF a]
    by (simp add: count_dash_j_join_comma sum_list_zero)
  then have "count_dash_j (strip (str_join '','' (cfg_message_level (p_raw_config self)))) = 0"
    by (rule count_dash_j_strip)
  then show ?thesis by (simp add: message_level_def count_dash_j_Cons)
qed

lemma count_defines:
  "free_of_dash_j (configured_text (p_raw_config self)) \<Longrightarrow>
     count_dash_j (CppCheckConfig_defines self) = 0"
  unfolding CppCheckConfig_defines_def
  using free_of_dash_j_configured(5) [of "p_raw_config self"]
  by (intro count_dash_j_strip count_dash_j_join_map) (simp add: count_dash_j_Cons)

lemma count_un_defines:
  "free_of_dash_j (configured_text (p_raw_config self)) \<Longrightarrow> count_dash_j (un_defines self) = 0"
  unfolding un_defines_def
  using free_of_dash_j_configured(6) [of "p_raw_config self"]
  by (intro count_dash_j_join_map) (simp add: count_dash_j_Cons)

lemma count_includes:
  "free_of_dash_j (configured_text (p_raw_config self)) \<Longrightarrow>
     count_dash_j (CppCheckConfig_includes self) = 0"
  unfolding CppCheckConfig_includes_def
  using free_of_dash_j_configured(9) [of "p_raw_config self"]
  by (intro count_dash_j_join_map) (simp add: count_dash_j_Cons)

lemma count_excludes:
  "free_of_dash_j (configured_text (p_raw_config self)) \<Longrightarrow> count_dash_j (excludes self) = 0"
  unfolding excludes_def
  using free_of_dash_j_configured(10) [of "p_raw_config self"]
  by (intro count_dash_j_join_map) (simp add: count_dash_j_Cons)

lemma count_standard:
  "free_of_dash_j (configured_text (p_raw_config self)) \<Longrightarrow> count_dash_j (standard self) = 0"
  using free_of_dash_j_configured(7) [of "p_raw_config self"]
  by (simp add: standard_def count_dash_j_Cons)

lemma count_platform:
  "free_of_dash_j (configured_text (p_raw_config self)) \<Longrightarrow> count_dash_j (platform self) = 0"
  using free_of_dash_j_configured(8) [of "p_raw_config self"]
  by (simp add: platform_def count_dash_j_Cons)

lemma count_error_exit_code: "count_dash_j (error_exit_code self) = 0"
  by (simp add: error_exit_code_def count_dash_j_Cons count_dash_j_str_int)

lemma count_directories:
  "free_of_dash_j (configured_text (p_raw_config self)) \<Longrightarrow>
     count_dash_j (CppCheckConfig_directories self) = 0"
  using free_of_dash_j_configured(11) [of "p_raw_config self"]
  by (simp add: CppCheckConfig_directories_def count_dash_j_join_space sum_list_zero)

lemma count_files:
  "free_of_dash_j (configured_text (p_raw_config self)) \<Longrightarrow>
     count_dash_j (CppCheckConfig_files self) = 0"
  using free_of_dash_j_configured(12) [of "p_raw_config self"]
  by (simp add: CppCheckConfig_files_def count_dash_j_join_space sum_list_zero)

lemma count_options:
  "free_of_dash_j (configured_text (p_raw_config self)) \<Longrightarrow> count_dash_j (options self) = 0"
  using free_of_dash_j_configured(1) [of "p_raw_config self"]
  by (simp add: options_def count_dash_j_join_space sum_list_zero)

lemma count_suppressions_flag:
  "count_dash_j (''--suppressions-list='' @ p) = count_dash_j p"
  by (simp add: count_dash_j_Cons)

lemma count_base_fragments:
  "free_of_dash_j (configured_text (p_raw_config self)) \<Longrightarrow>
     sum_list (map count_dash_j (base_fragments self)) = 1"
  by (simp add: base_fragments_def count_threads count_output_format count_message_level
        count_defines count_un_defines count_standard count_platform count_error_exit_code
        count_includes count_excludes count_directories count_files)

lemma count_prepended_fragments:
  "free_of_dash_j (configured_text (p_raw_config self)) \<Longrightarrow> count_dash_j p = 0 \<Longrightarrow>
     sum_list (map count_dash_j (prepended_fragments self p)) = 0"
  by (simp add: prepended_fragments_def count_options count_suppressions_flag count_dash_j_Cons)

lemma build_command_fragments:
  "generate_suppression_list os self w = (Inr p, w') \<Longrightarrow>
     build_command os self w =
       (Inr (str_join '' '' (prepended_fragments self p @ base_fragments self)), w')"
  by (simp add: build_command_def base_command_def prepended_fragments_def base_fragments_def)

text \<open>
  C3 as stated: the command of every configuration contains exactly one \<^verbatim>\<open>-j\<close> flag.
  The free-form options are copied into the command; with the option \<^verbatim>\<open>-j 2\<close> it
  contains two.
\<close>

theorem one_thread_flag_counterexample:
  "fst (build_command sample_os (config_with_options [''-j 2'']) sample_world) =
     Inr (''-j 2 --dump --suppressions-list=out/thor/thor_suppression_list.txt -j 4 --template=''
          @ [CHR 0x22] @ ''gcc'' @ [CHR 0x22]
          @ '' --enable=warning,style -DDEBUG -iNDEBUG --std=c++11 --platform=unix32''
          @ '' --error-exitcode=1 -Iinc -ithird_party src main.cpp'') \<and>
   map_sum id count_dash_j
     (fst (build_command sample_os (config_with_options [''-j 2'']) sample_world)) = Inr 2"
  by (simp add: build_command_def base_command_def config_with_options_def sample_defs gen_defs
        threads_def output_format_def template_flag_def message_level_def
        CppCheckConfig_defines_def un_defines_def standard_def platform_def error_exit_code_def
        CppCheckConfig_includes_def excludes_def CppCheckConfig_directories_def
        CppCheckConfig_files_def options_def add_ons_def strip_def is_space_def)

text \<open>
  C3 amended: whenever \<^verbatim>\<open>generate_suppression_list\<close> returns a path \<open>p\<close>,
  \<^verbatim>\<open>build_command\<close> returns the fragments joined by single spaces in this order: the
  options if there are any, \<^verbatim>\<open>--dump\<close> if add-ons are enabled, \<^verbatim>\<open>--suppressions-list=p\<close>
  if \<open>p\<close> is not empty, then \<^verbatim>\<open>-j N\<close>, the template, the message levels, the defines,
  the un-defines, the standard, the platform, the error exit code, the includes, the
  excludes, the directories and the files. The command contains \<^verbatim>\<open>-j\<close> exactly once
  when \<^verbatim>\<open>-j\<close> occurs neither in \<open>p\<close> nor in any string of the configuration.
\<close>

theorem build_command_order:
  assumes "generate_suppression_list os self w = (Inr p, w')"
  shows "build_command os self w =
           (Inr (str_join '' ''
                  ((if options self \<noteq> [] then [options self] else [])
                   @ (if add_ons self then [''--dump''] else [])
                   @ (if p \<noteq> [] then [''--suppressions-list='' @ p] else [])
                   @ [threads self, output_format self, message_level self,
                      CppCheckConfig_defines self, un_defines self, standard self, platform self,
                      error_exit_code self, CppCheckConfig_includes self, excludes self,
                      CppCheckConfig_directories self, CppCheckConfig_files self])), w') \<and>
         threads self = ''-j '' @ str_int (cfg_threads (p_raw_config self)) \<and>
         (free_of_dash_j (p # configured_text (p_raw_config self)) \<longrightarrow>
            (\<exists>command. fst (build_command os self w) = Inr command \<and> count_dash_j command = 1))"
proof (intro conjI impI)
  show "build_command os self w =
           (Inr (str_join '' ''
                  ((if options self \<noteq> [] then [options self] else [])
                   @ (if add_ons self then [''--dump''] else [])
                   @ (if p \<noteq> [] then [''--suppressions-list='' @ p] else [])
                   @ [threads self, output_format self, message_level self,
                      CppCheckConfig_defines self, un_defines self, standard self, platform self,
                      error_exit_code self, CppCheckConfig_includes self, excludes self,
                      CppCheckConfig_directories self, CppCheckConfig_files self])), w')"
    using build_command_fragments [OF assms]
    by (simp add: prepended_fragments_def base_fragments_def)
  show "threads self = ''-j '' @ str_int (cfg_threads (p_raw_config self))"
    by (simp add: threads_def)
next
  assume "free_of_dash_j (p # configured_text (p_raw_config self))"
  then have f: "free_of_dash_j (configured_text (p_raw_config self))" and p: "count_dash_j p = 0"
    by (simp_all add: free_of_dash_j_def)
  have "count_dash_j (str_join '' '' (prepended_fragments self p @ base_fragments self)) = 1"
    using count_base_fragments [OF f] count_prepended_fragments [OF f p]
    by (simp add: count_dash_j_join_space)
  then show "\<exists>command. fst (build_command os self w) = Inr command \<and> count_dash_j command = 1"
    using build_command_fragments [OF assms] by simp
qed

lemma sample_generate:
  "generate_suppression_list sample_os sample_config sample_world =
     (Inr ''out/thor/thor_suppression_list.txt'',
      sample_world\<lparr>disk := write_file sample_os ''/work/out/thor/thor_suppression_list.txt''
         (''// x'' @ [CHR 0x0A] @ ''nullPointer:/work/src/main.cpp:42'' @ [CHR 0x0A, CHR 0x0A])
         (disk sample_world)\<rparr>)"
  by (simp add: sample_defs gen_defs)

lemma sample_free_of_dash_j:
  "free_of_dash_j (''out/thor/thor_suppression_list.txt''
                    # configured_text (p_raw_config sample_config))"
  by (simp add: free_of_dash_j_def configured_text_def sample_config_def
        sample_analyzer_config_def)

theorem build_command_order_witness:
  "generate_suppression_list sample_os sample_config sample_world =
     (Inr ''out/thor/thor_suppression_list.txt'',
      sample_world\<lparr>disk := write_file sample_os ''/work/out/thor/thor_suppression_list.txt''
         (''// x'' @ [CHR 0x0A] @ ''nullPointer:/work/src/main.cpp:42'' @ [CHR 0x0A, CHR 0x0A])
         (disk sample_world)\<rparr>) \<and>
   free_of_dash_j (''out/thor/thor_suppression_list.txt''
                    # configured_text (p_raw_config sample_config)) \<and>
   (\<exists>command. fst (build_command sample_os sample_config sample_world) = Inr command \<and>
      count_dash_j command = 1)"
  using sample_generate sample_free_of_dash_j
        build_command_order [OF sample_generate] sample_free_of_dash_j
  by blast

end
